theory Spec2Isabelle
  imports Complex_Main
begin

section \<open>JavaScript values, strings and exceptions\<close>

text \<open>
  The chat proxy of \<^verbatim>\<open>application/chat-interface/index.js\<close> handles untyped values: the
  parsed request body, the objects returned by the model client libraries, values that may be
  \<^verbatim>\<open>undefined\<close>. They are modelled by one datatype of JavaScript values. An object is the
  list of its own properties, the first binding of a key being the one a property read
  finds. A number carries the value of the parsed double; only its being zero or not is
  ever inspected by the program. A string is a list of code units; \<^typ>\<open>char\<close> has eight
  bits, so the model covers the strings whose code units are below 256.
\<close>

datatype jsval =
    JUndefined
  | JNull
  | JBool bool
  | JNum real
  | JStr string
  | JArr "jsval list"
  | JObj "(string \<times> jsval) list"

text \<open>What is thrown: an \<^verbatim>\<open>Error\<close> object, of which the program reads \<^verbatim>\<open>message\<close> only.\<close>

datatype js_error = Error string | TypeError string

fun message :: "js_error \<Rightarrow> string" where
  "message (Error m) = m"
| "message (TypeError m) = m"

text \<open>\<^verbatim>\<open>!v\<close> is \<open>\<not> truthy v\<close>.\<close>

fun truthy :: "jsval \<Rightarrow> bool" where
  "truthy JUndefined = False"
| "truthy JNull = False"
| "truthy (JBool b) = b"
| "truthy (JNum n) = (n \<noteq> 0)"
| "truthy (JStr s) = (s \<noteq> [])"
| "truthy (JArr xs) = True"
| "truthy (JObj kvs) = True"

text \<open>
  The property read \<^verbatim>\<open>v.k\<close>, for a key \<open>k\<close> that no built-in prototype defines (the program
  reads \<^verbatim>\<open>message\<close>, \<^verbatim>\<open>response\<close>, \<^verbatim>\<open>candidates\<close>, \<^verbatim>\<open>content\<close>, \<^verbatim>\<open>parts\<close> and \<^verbatim>\<open>text\<close>):
  it throws on \<^verbatim>\<open>undefined\<close> and \<^verbatim>\<open>null\<close>, and is \<^verbatim>\<open>undefined\<close> where the property is absent.
\<close>

definition cannot_read :: "string \<Rightarrow> string \<Rightarrow> js_error" where
  "cannot_read v k =
     TypeError (''Cannot read properties of '' @ v @ '' (reading '' @ [CHR 39] @ k @ [CHR 39] @ '')'')"

fun get_prop :: "jsval \<Rightarrow> string \<Rightarrow> js_error + jsval" where
  "get_prop JUndefined k = Inl (cannot_read ''undefined'' k)"
| "get_prop JNull k = Inl (cannot_read ''null'' k)"
| "get_prop (JObj kvs) k = Inr (case map_of kvs k of None \<Rightarrow> JUndefined | Some v \<Rightarrow> v)"
| "get_prop v k = Inr JUndefined"

text \<open>The element read \<^verbatim>\<open>v[0]\<close>.\<close>

fun index0 :: "jsval \<Rightarrow> js_error + jsval" where
  "index0 JUndefined = Inl (cannot_read ''undefined'' ''0'')"
| "index0 JNull = Inl (cannot_read ''null'' ''0'')"
| "index0 (JArr xs) = Inr (case xs of [] \<Rightarrow> JUndefined | x # _ \<Rightarrow> x)"
| "index0 (JStr s) = Inr (case s of [] \<Rightarrow> JUndefined | c # _ \<Rightarrow> JStr [c])"
| "index0 (JObj kvs) = Inr (case map_of kvs ''0'' of None \<Rightarrow> JUndefined | Some v \<Rightarrow> v)"
| "index0 v = Inr JUndefined"

text \<open>
  \<^verbatim>\<open>String.prototype.trim\<close> removes white space and line terminators at both ends. Of
  these, the code units below 256 are TAB, LF, VT, FF, CR, SP and NBSP.
\<close>

definition is_ws :: "char \<Rightarrow> bool" where
  "is_ws c = (of_char c \<in> {9, 10, 11, 12, 13, 32, 160 :: nat})"

definition trim :: "string \<Rightarrow> string" where
  "trim s = rev (dropWhile is_ws (rev (dropWhile is_ws s)))"

definition startsWith :: "string \<Rightarrow> string \<Rightarrow> bool" where
  "startsWith s p = (take (length p) s = p)"

text \<open>
  The method call \<^verbatim>\<open>userMessage.trim()\<close>: only a string has the method. On any other value
  that can be read from, \<^verbatim>\<open>trim\<close> is \<^verbatim>\<open>undefined\<close> or (for a parsed object with a key
  \<^verbatim>\<open>trim\<close>) a value that is no function, and the call throws.
\<close>

fun call_trim :: "jsval \<Rightarrow> js_error + string" where
  "call_trim (JStr s) = Inr (trim s)"
| "call_trim JUndefined = Inl (cannot_read ''undefined'' ''trim'')"
| "call_trim JNull = Inl (cannot_read ''null'' ''trim'')"
| "call_trim v = Inl (TypeError ''userMessage.trim is not a function'')"

text \<open>A value in a template literal, \<^verbatim>\<open>`${v}`\<close>, for an optional string.\<close>

fun template :: "string option \<Rightarrow> string" where
  "template None = ''undefined''"
| "template (Some s) = s"


section \<open>Configuration\<close>

text \<open>
  \<^verbatim>\<open>process.env\<close> maps names to strings. \<^verbatim>\<open>process.env.X || d\<close> is \<open>d\<close> when \<open>X\<close> is unset,
  and also when it is set to the empty string.
\<close>

type_synonym env = "string \<rightharpoonup> string"

definition env_or :: "env \<Rightarrow> string \<Rightarrow> string \<Rightarrow> string" where
  "env_or e k d = (case e k of None \<Rightarrow> d | Some v \<Rightarrow> if v = [] then d else v)"

text \<open>\<^verbatim>\<open>process.env.A || process.env.B\<close>: \<^verbatim>\<open>undefined\<close> (here \<open>None\<close>) when both are unset.\<close>

definition env_or_env :: "env \<Rightarrow> string \<Rightarrow> string \<Rightarrow> string option" where
  "env_or_env e a b = (case e a of None \<Rightarrow> e b | Some v \<Rightarrow> if v = [] then e b else Some v)"

definition GOOGLE_VERTEXAI :: string where
  "GOOGLE_VERTEXAI = ''google-vertexai''"

definition GOOGLE_AI_STUDIO :: string where
  "GOOGLE_AI_STUDIO = ''google-ai-studio''"

record config =
  port :: string
  modelName :: string
  project :: "string option"
  location :: string
  modelProvider :: string
  googleAIStudioApiSecret :: string

definition load_config :: "env \<Rightarrow> config" where
  "load_config e =
     \<lparr> port = env_or e ''PORT'' ''8080'',
       modelName = env_or e ''MODEL_NAME'' ''gemini-2.0-flash-lite'',
       project = env_or_env e ''GOOGLE_CLOUD_PROJECT'' ''GCP_PROJECT'',
       location = (case env_or_env e ''GOOGLE_CLOUD_REGION'' ''GCP_REGION'' of
                     None \<Rightarrow> ''us-central1''
                   | Some r \<Rightarrow> if r = [] then ''us-central1'' else r),
       modelProvider = env_or e ''MODEL_PROVIDER'' GOOGLE_AI_STUDIO,
       googleAIStudioApiSecret = env_or e ''GOOGLE_AI_STUDIO_API_SECRET'' ''gemini-api-key-secret'' \<rparr>"


section \<open>The collaborators and what is observed of a run\<close>

text \<open>
  A model handle is what \<^verbatim>\<open>getGenerativeModel\<close> returns: the client it was made from and
  the model's name. Constructing a client or a handle calls no service. The Vertex library
  may refuse the handle and throw (a model name it cannot resolve, for one); the API-key
  library refuses only an empty model name, which the configuration's default excludes.
\<close>

record vertex_model =
  vm_project :: string
  vm_location :: string
  vm_model :: string

record studio_model =
  sm_apiKey :: string
  sm_model :: string

text \<open>
  The services outside the program, each a function of its arguments (a deterministic
  stub). The secret store gives the text of \<^verbatim>\<open>version.payload.data\<close> or throws; an answer
  without payload data counts as a throw, since reading it throws inside \<^verbatim>\<open>init\<close>. A model
  backend returns a result object or throws. Of the result of the API-key client the
  program calls \<^verbatim>\<open>response.text()\<close>, which returns a string or throws.
  \<open>vertexGetGenerativeModel\<close> is \<^verbatim>\<open>new VertexAI(...).getGenerativeModel(...)\<close>: \<open>None\<close> when
  the handle is returned, the exception otherwise. \<open>listen\<close> is \<^verbatim>\<open>app.listen(port, '0.0.0.0')\<close>:
  \<open>None\<close> when the port is bound, the exception otherwise (a port out of range, a port in
  use). The texts of the \<^verbatim>\<open>TypeError\<close>s raised by the language itself are those of Node's
  engine.
\<close>

record collaborators =
  accessSecretVersion :: "string \<Rightarrow> js_error + string"
  vertexGenerate :: "vertex_model \<Rightarrow> jsval \<Rightarrow> js_error + jsval"
  studioGenerate :: "studio_model \<Rightarrow> jsval \<Rightarrow> js_error + (js_error + string)"
  vertexGetGenerativeModel :: "vertex_model \<Rightarrow> js_error option"
  listen :: "string \<Rightarrow> js_error option"

text \<open>The calls a run makes, in order.\<close>

datatype effect =
    AccessSecretVersion string
  | GenerateContent jsval
  | VertexGenerate vertex_model jsval
  | StudioGenerate studio_model jsval
  | Listen string


section \<open>The providers\<close>

record VertexAIProvider =
  vx_modelName :: string
  vx_project :: "string option"
  vx_location :: string
  vx_model :: "vertex_model option"

record GoogleAIStudioProvider =
  st_modelName :: string
  st_project :: "string option"
  st_secretName :: "string option"
  st_model :: "studio_model option"

datatype ModelProvider =
    VertexAI VertexAIProvider
  | GoogleAIStudio GoogleAIStudioProvider

text \<open>\<^verbatim>\<open>!s\<close> for an optional string: \<^verbatim>\<open>undefined\<close> and the empty string are falsy.\<close>

fun absent :: "string option \<Rightarrow> bool" where
  "absent None = True"
| "absent (Some s) = (s = [])"

definition vertex_init ::
  "collaborators \<Rightarrow> VertexAIProvider \<Rightarrow> (js_error + VertexAIProvider) \<times> effect list" where
  "vertex_init c p =
     (if absent (vx_project p)
      then (Inl (Error ''GOOGLE_CLOUD_PROJECT environment variable is required for Vertex AI''), [])
      else
        let m = \<lparr> vm_project = template (vx_project p),
                  vm_location = vx_location p,
                  vm_model = vx_modelName p \<rparr> in
        (case vertexGetGenerativeModel c m of
           Some e \<Rightarrow> (Inl e, [])
         | None \<Rightarrow> (Inr (p\<lparr>vx_model := Some m\<rparr>), [])))"

definition secretVersion :: "string option \<Rightarrow> string \<Rightarrow> string" where
  "secretVersion proj name =
     (if startsWith name ''projects/''
      then name @ ''/versions/latest''
      else ''projects/'' @ template proj @ ''/secrets/'' @ name @ ''/versions/latest'')"

definition studio_init ::
  "collaborators \<Rightarrow> GoogleAIStudioProvider \<Rightarrow> (js_error + GoogleAIStudioProvider) \<times> effect list" where
  "studio_init c p =
     (if absent (st_secretName p)
      then (Inl (Error ''GOOGLE_AI_STUDIO_API_SECRET environment variable is required for Google AI Studio''), [])
      else if absent (st_project p) \<and> \<not> startsWith (template (st_secretName p)) ''projects/''
      then (Inl (Error ''GOOGLE_CLOUD_PROJECT environment variable is required to resolve Secret Manager secrets''), [])
      else
        let path = secretVersion (st_project p) (template (st_secretName p)) in
        (case accessSecretVersion c path of
           Inl e \<Rightarrow> (Inl e, [AccessSecretVersion path])
         | Inr payload \<Rightarrow>
             (Inr (p\<lparr>st_model := Some \<lparr> sm_apiKey = trim payload,
                                          sm_model = st_modelName p \<rparr>\<rparr>),
              [AccessSecretVersion path])))"

fun init :: "collaborators \<Rightarrow> ModelProvider \<Rightarrow> (js_error + ModelProvider) \<times> effect list" where
  "init c (VertexAI p) =
     (case vertex_init c p of (Inl e, tr) \<Rightarrow> (Inl e, tr) | (Inr p', tr) \<Rightarrow> (Inr (VertexAI p'), tr))"
| "init c (GoogleAIStudio p) =
     (case studio_init c p of (Inl e, tr) \<Rightarrow> (Inl e, tr) | (Inr p', tr) \<Rightarrow> (Inr (GoogleAIStudio p'), tr))"


text \<open>Sequencing of steps that may throw: the first exception ends the sequence.\<close>

fun andThen :: "js_error + 'a \<Rightarrow> ('a \<Rightarrow> js_error + 'b) \<Rightarrow> js_error + 'b" where
  "andThen (Inl e) f = Inl e"
| "andThen (Inr v) f = f v"

text \<open>\<^verbatim>\<open>result.response.candidates[0].content.parts[0].text\<close>\<close>

definition candidate_text :: "jsval \<Rightarrow> js_error + jsval" where
  "candidate_text result =
     andThen (get_prop result ''response'') (\<lambda>response.
     andThen (get_prop response ''candidates'') (\<lambda>candidates.
     andThen (index0 candidates) (\<lambda>candidate.
     andThen (get_prop candidate ''content'') (\<lambda>content.
     andThen (get_prop content ''parts'') (\<lambda>parts.
     andThen (index0 parts) (\<lambda>part.
     get_prop part ''text''))))))"

text \<open>
  A call of \<^verbatim>\<open>generateContent\<close> returns its value or exception, the provider object as the
  call leaves it, and the calls made. The methods assign to no field of \<^verbatim>\<open>this\<close>. Before
  \<^verbatim>\<open>init\<close> the field \<^verbatim>\<open>model\<close> is \<^verbatim>\<open>null\<close>, and calling a method of it throws.
\<close>

definition user_request :: "jsval \<Rightarrow> jsval" where
  "user_request userMessage =
     JObj [(''contents'',
            JArr [JObj [(''role'', JStr ''user''),
                        (''parts'', JArr [JObj [(''text'', userMessage)]])]])]"

definition vertex_generateContent ::
  "collaborators \<Rightarrow> VertexAIProvider \<Rightarrow> jsval \<Rightarrow> (js_error + jsval) \<times> VertexAIProvider \<times> effect list" where
  "vertex_generateContent c p userMessage =
     (case vx_model p of
        None \<Rightarrow> (Inl (cannot_read ''null'' ''generateContent''), p, [GenerateContent userMessage])
      | Some m \<Rightarrow>
          (andThen (vertexGenerate c m (user_request userMessage)) candidate_text,
           p,
           [GenerateContent userMessage, VertexGenerate m (user_request userMessage)]))"

definition studio_generateContent ::
  "collaborators \<Rightarrow> GoogleAIStudioProvider \<Rightarrow> jsval \<Rightarrow> (js_error + jsval) \<times> GoogleAIStudioProvider \<times> effect list" where
  "studio_generateContent c p userMessage =
     (case st_model p of
        None \<Rightarrow> (Inl (cannot_read ''null'' ''generateContent''), p, [GenerateContent userMessage])
      | Some m \<Rightarrow>
          (andThen (studioGenerate c m userMessage)
             (\<lambda>text. andThen text (\<lambda>s. Inr (JStr s))),
           p,
           [GenerateContent userMessage, StudioGenerate m userMessage]))"

fun generateContent ::
  "collaborators \<Rightarrow> ModelProvider \<Rightarrow> jsval \<Rightarrow> (js_error + jsval) \<times> ModelProvider \<times> effect list" where
  "generateContent c (VertexAI p) userMessage =
     (case vertex_generateContent c p userMessage of (r, p', tr) \<Rightarrow> (r, VertexAI p', tr))"
| "generateContent c (GoogleAIStudio p) userMessage =
     (case studio_generateContent c p userMessage of (r, p', tr) \<Rightarrow> (r, GoogleAIStudio p', tr))"

definition createProvider :: "config \<Rightarrow> js_error + ModelProvider" where
  "createProvider cf =
     (if modelProvider cf = GOOGLE_VERTEXAI
      then Inr (VertexAI \<lparr> vx_modelName = modelName cf, vx_project = project cf,
                           vx_location = location cf, vx_model = None \<rparr>)
      else if modelProvider cf = GOOGLE_AI_STUDIO
      then Inr (GoogleAIStudio \<lparr> st_modelName = modelName cf, st_project = project cf,
                                 st_secretName = Some (googleAIStudioApiSecret cf),
                                 st_model = None \<rparr>)
      else Inl (Error (''Invalid model provider: '' @ modelProvider cf)))"


section \<open>The request handlers\<close>

text \<open>
  A handler receives the request body as the JSON middleware left it in \<^verbatim>\<open>req.body\<close> and
  answers with a status and the value given to \<^verbatim>\<open>res.json\<close>. The server is the module's
  configuration and its provider object. A handler's outcome is \<open>Inl\<close> when an exception
  leaves the handler, and \<open>Inr\<close> the response otherwise.
\<close>

record response =
  status :: nat
  body :: jsval

record server =
  cfg :: config
  provider :: ModelProvider

fun opt_str :: "string option \<Rightarrow> jsval" where
  "opt_str None = JUndefined"
| "opt_str (Some s) = JStr s"

definition get_handler :: "server \<Rightarrow> jsval \<Rightarrow> (js_error + response) \<times> server \<times> effect list" where
  "get_handler srv req_body =
     (Inr \<lparr> status = 200,
            body = JObj [(''message'', JStr ''Health check successful''),
                         (''request'', req_body)] \<rparr>,
      srv, [])"

definition message_required :: response where
  "message_required = \<lparr> status = 400, body = JObj [(''error'', JStr ''Message is required'')] \<rparr>"

definition debug :: "config \<Rightarrow> jsval" where
  "debug cf =
     JObj [(''MODEL_NAME'', JStr (modelName cf)),
           (''project'', opt_str (project cf)),
           (''location'', JStr (location cf)),
           (''modelProvider'', JStr (modelProvider cf))]"

text \<open>The body of the \<^verbatim>\<open>try\<close> block of the POST handler.\<close>

definition post_try ::
  "collaborators \<Rightarrow> server \<Rightarrow> jsval \<Rightarrow> (js_error + response) \<times> server \<times> effect list" where
  "post_try c srv jsonPayload =
     (case get_prop jsonPayload ''message'' of
        Inl e \<Rightarrow> (Inl e, srv, [])
      | Inr userMessage \<Rightarrow>
          if \<not> truthy userMessage then (Inr message_required, srv, [])
          else
            (case call_trim userMessage of
               Inl e \<Rightarrow> (Inl e, srv, [])
             | Inr trimmed \<Rightarrow>
                 if trimmed = [] then (Inr message_required, srv, [])
                 else
                   (case generateContent c (provider srv) userMessage of
                      (Inl e, p', tr) \<Rightarrow> (Inl e, srv\<lparr>provider := p'\<rparr>, tr)
                    | (Inr responseText, p', tr) \<Rightarrow>
                        (Inr \<lparr> status = 200,
                               body = JObj [(''reply'', responseText),
                                            (''request'', jsonPayload),
                                            (''debug'', debug (cfg srv))] \<rparr>,
                         srv\<lparr>provider := p'\<rparr>, tr))))"

text \<open>The \<^verbatim>\<open>catch\<close> block turns whatever the \<^verbatim>\<open>try\<close> block threw into a response.\<close>

definition generation_failed :: "js_error \<Rightarrow> response" where
  "generation_failed error =
     \<lparr> status = 500,
       body = JObj [(''error'', JStr ''Error generating content''),
                    (''details'', JStr (message error))] \<rparr>"

definition post_handler ::
  "collaborators \<Rightarrow> server \<Rightarrow> jsval \<Rightarrow> (js_error + response) \<times> server \<times> effect list" where
  "post_handler c srv req_body =
     (case post_try c srv req_body of
        (Inl error, srv', tr) \<Rightarrow> (Inr (generation_failed error), srv', tr)
      | (Inr r, srv', tr) \<Rightarrow> (Inr r, srv', tr))"

text \<open>Requests to the one route, and serving a sequence of them, one after the other.\<close>

datatype request = GET jsval | POST jsval

fun handle :: "collaborators \<Rightarrow> server \<Rightarrow> request \<Rightarrow> (js_error + response) \<times> server \<times> effect list" where
  "handle c srv (GET b) = get_handler srv b"
| "handle c srv (POST b) = post_handler c srv b"

fun serve :: "collaborators \<Rightarrow> server \<Rightarrow> request list \<Rightarrow> (js_error + response) list" where
  "serve c srv [] = []"
| "serve c srv (r # rs) =
     (case handle c srv r of (out, srv', tr) \<Rightarrow> out # serve c srv' rs)"


section \<open>Startup\<close>

text \<open>
  The module creates its provider while it loads: an exception of \<^verbatim>\<open>createProvider\<close> is
  uncaught and ends the process there. \<^verbatim>\<open>startServer\<close> initialises the provider and exits
  with code 1 if that throws. Otherwise it calls \<^verbatim>\<open>app.listen\<close>, outside the \<^verbatim>\<open>try\<close> block:
  an exception of that call is uncaught too and ends the process with no port bound.
\<close>

datatype process = Crashed js_error | Exited nat | Listening server

definition startServer :: "collaborators \<Rightarrow> config \<Rightarrow> ModelProvider \<Rightarrow> process \<times> effect list" where
  "startServer c cf p =
     (case init c p of
        (Inl error, tr) \<Rightarrow> (Exited 1, tr)
      | (Inr p', tr) \<Rightarrow>
          (case listen c (port cf) of
             Some error \<Rightarrow> (Crashed error, tr)
           | None \<Rightarrow> (Listening \<lparr> cfg = cf, provider = p' \<rparr>, tr @ [Listen (port cf)])))"

definition main :: "env \<Rightarrow> collaborators \<Rightarrow> process \<times> effect list" where
  "main e c =
     (let cf = load_config e in
      case createProvider cf of
        Inl error \<Rightarrow> (Crashed error, [])
      | Inr p \<Rightarrow> startServer c cf p)"

fun is_listen :: "effect \<Rightarrow> bool" where
  "is_listen (Listen prt) = True"
| "is_listen x = False"

fun binds_port :: "process \<times> effect list \<Rightarrow> bool" where
  "binds_port (pr, tr) = list_ex is_listen tr"

fun startup_failed :: "process \<times> effect list \<Rightarrow> bool" where
  "startup_failed (Listening srv, tr) = False"
| "startup_failed (pr, tr) = True"


text \<open>Whether a value is a string (\<^verbatim>\<open>typeof v === 'string'\<close>).\<close>

fun is_string :: "jsval \<Rightarrow> bool" where
  "is_string (JStr s) = True"
| "is_string v = False"


section \<open>Stub collaborators\<close>

text \<open>
  Deterministic stand-ins for the secret store and the two model backends, for running the
  program on concrete inputs. \<open>stub\<close> answers every call; the backend of \<open>stub_no_text\<close>
  answers with a first part that carries a function call and no text; the backend of
  \<open>stub_no_candidates\<close> answers with an empty candidate list; the backends of
  \<open>stub_failing\<close> throw; the secret store of \<open>stub_no_secret\<close> throws.
\<close>

definition vertex_result :: "jsval list \<Rightarrow> jsval" where
  "vertex_result candidates = JObj [(''response'', JObj [(''candidates'', JArr candidates)])]"

definition candidate :: "jsval list \<Rightarrow> jsval" where
  "candidate parts =
     JObj [(''content'', JObj [(''role'', JStr ''model''), (''parts'', JArr parts)]),
           (''finishReason'', JStr ''STOP'')]"

definition stub :: collaborators where
  "stub = \<lparr> accessSecretVersion = (\<lambda>path. Inr ''key-123''),
            vertexGenerate = (\<lambda>m req. Inr (vertex_result [candidate [JObj [(''text'', JStr ''Hello'')]]])),
            studioGenerate = (\<lambda>m msg. Inr (Inr ''Hello'')),
            vertexGetGenerativeModel = (\<lambda>m. None),
            listen = (\<lambda>prt. None) \<rparr>"

definition stub_no_text :: collaborators where
  "stub_no_text =
     stub\<lparr>vertexGenerate :=
            (\<lambda>m req. Inr (vertex_result
               [candidate [JObj [(''functionCall'', JObj [(''name'', JStr ''lookup'')])]]]))\<rparr>"

definition stub_no_candidates :: collaborators where
  "stub_no_candidates = stub\<lparr>vertexGenerate := (\<lambda>m req. Inr (vertex_result []))\<rparr>"

definition stub_failing :: collaborators where
  "stub_failing =
     stub\<lparr>vertexGenerate := (\<lambda>m req. Inl (Error ''quota exceeded'')),
          studioGenerate := (\<lambda>m msg. Inl (Error ''quota exceeded''))\<rparr>"

definition stub_no_secret :: collaborators where
  "stub_no_secret = stub\<lparr>accessSecretVersion := (\<lambda>path. Inl (Error ''5 NOT_FOUND''))\<rparr>"

definition studio_provider :: "string option \<Rightarrow> string \<Rightarrow> GoogleAIStudioProvider" where
  "studio_provider proj name =
     \<lparr> st_modelName = ''gemini-2.0-flash-lite'', st_project = proj,
       st_secretName = Some name, st_model = None \<rparr>"

definition vertex_ready :: VertexAIProvider where
  "vertex_ready =
     \<lparr> vx_modelName = ''gemini-2.0-flash-lite'', vx_project = Some ''proj-1'',
       vx_location = ''us-central1'',
       vx_model = Some \<lparr> vm_project = ''proj-1'', vm_location = ''us-central1'',
                         vm_model = ''gemini-2.0-flash-lite'' \<rparr> \<rparr>"

definition vertex_env :: env where
  "vertex_env = map_of [(''MODEL_PROVIDER'', ''google-vertexai''),
                        (''GOOGLE_CLOUD_PROJECT'', ''proj-1'')]"

definition vertex_server :: server where
  "vertex_server = \<lparr> cfg = load_config vertex_env, provider = VertexAI vertex_ready \<rparr>"


section \<open>Resolution of the secret-version path\<close>

text \<open>
  C1. Initialising the API-key provider with a bare secret name \<open>n\<close> and a configured project
  \<open>pr\<close> reads exactly the secret version \<^verbatim>\<open>projects/{pr}/secrets/{n}/versions/latest\<close>. With a
  secret reference that starts with \<^verbatim>\<open>projects/\<close> it reads that reference followed by
  \<^verbatim>\<open>/versions/latest\<close>, whatever the project field holds (also when none is configured), and
  it succeeds as soon as the secret store answers.
\<close>

theorem studio_init_secret_version:
  "(st_secretName p = Some n \<and> n \<noteq> [] \<and> \<not> startsWith n ''projects/'' \<and>
      st_project p = Some pr \<and> pr \<noteq> []
    \<longrightarrow> snd (studio_init c p) =
          [AccessSecretVersion (''projects/'' @ pr @ ''/secrets/'' @ n @ ''/versions/latest'')])
   \<and>
   (st_secretName p = Some n \<and> startsWith n ''projects/''
    \<longrightarrow> snd (studio_init c p) = [AccessSecretVersion (n @ ''/versions/latest'')]
        \<and> (\<forall>payload. accessSecretVersion c (n @ ''/versions/latest'') = Inr payload
             \<longrightarrow> (\<exists>p'. fst (studio_init c p) = Inr p')))"
proof (intro conjI impI)
  assume a: "st_secretName p = Some n \<and> n \<noteq> [] \<and> \<not> startsWith n ''projects/'' \<and>
      st_project p = Some pr \<and> pr \<noteq> []"
  then show "snd (studio_init c p) =
      [AccessSecretVersion (''projects/'' @ pr @ ''/secrets/'' @ n @ ''/versions/latest'')]"
    by (simp add: studio_init_def secretVersion_def Let_def split: sum.splits)
next
  assume b: "st_secretName p = Some n \<and> startsWith n ''projects/''"
  then have ne: "n \<noteq> []"
    by (auto simp: startsWith_def)
  from b ne show "snd (studio_init c p) = [AccessSecretVersion (n @ ''/versions/latest'')]"
    by (simp add: studio_init_def secretVersion_def Let_def split: sum.splits)
  from b ne show "\<forall>payload. accessSecretVersion c (n @ ''/versions/latest'') = Inr payload
      \<longrightarrow> (\<exists>p'. fst (studio_init c p) = Inr p')"
    by (simp add: studio_init_def secretVersion_def Let_def)
qed

theorem studio_init_secret_version_witness:
  "snd (studio_init stub (studio_provider (Some ''proj-1'') ''my-secret'')) =
     [AccessSecretVersion ''projects/proj-1/secrets/my-secret/versions/latest'']
   \<and> snd (studio_init stub (studio_provider None ''projects/proj-1/secrets/my-secret'')) =
     [AccessSecretVersion ''projects/proj-1/secrets/my-secret/versions/latest'']
   \<and> (\<exists>p'. fst (studio_init stub (studio_provider None ''projects/proj-1/secrets/my-secret'')) = Inr p')"
  using studio_init_secret_version [of "studio_provider (Some ''proj-1'') ''my-secret''" "''my-secret''" "''proj-1''" stub]
        studio_init_secret_version [of "studio_provider None ''projects/proj-1/secrets/my-secret''" "''projects/proj-1/secrets/my-secret''" "''x''" stub]
  by (simp add: studio_provider_def startsWith_def stub_def)


section \<open>Startup failures\<close>

lemma kinds_differ: "GOOGLE_VERTEXAI \<noteq> GOOGLE_AI_STUDIO"
  by (simp add: GOOGLE_VERTEXAI_def GOOGLE_AI_STUDIO_def)

lemma default_secret_is_bare: "\<not> startsWith ''gemini-api-key-secret'' ''projects/''"
  by (simp add: startsWith_def)

lemma vertex_init_refused:
  "\<not> absent (vx_project p) \<Longrightarrow>
   vertexGetGenerativeModel c \<lparr> vm_project = template (vx_project p), vm_location = vx_location p,
                                 vm_model = vx_modelName p \<rparr> = Some e \<Longrightarrow>
   vertex_init c p = (Inl e, [])"
  by (simp add: vertex_init_def)

lemma startServer_listen_throws:
  "init c p = (Inr p', tr) \<Longrightarrow> listen c (port cf) = Some e \<Longrightarrow>
   startServer c cf p = (Crashed e, tr)"
  by (simp add: startServer_def)

text \<open>
  C2, as amended. Startup ends without binding the port when the provider kind is
  \<^verbatim>\<open>google-vertexai\<close> and no project is configured (exit code 1), and when the provider kind is
  neither recognised value (the uncaught exception of \<^verbatim>\<open>createProvider\<close>). With the kind
  \<^verbatim>\<open>google-ai-studio\<close> and no secret reference configured, the secret name is the default
  \<^verbatim>\<open>gemini-api-key-secret\<close>: startup then ends with exit code 1 and no port bound when no
  project is configured, and when the secret store does not return that secret of the
  configured project.
\<close>

theorem startup_failures:
  "(modelProvider (load_config e) = GOOGLE_VERTEXAI \<and> absent (project (load_config e))
      \<longrightarrow> main e c = (Exited 1, []))
   \<and> (modelProvider (load_config e) \<noteq> GOOGLE_VERTEXAI \<and> modelProvider (load_config e) \<noteq> GOOGLE_AI_STUDIO
      \<longrightarrow> main e c = (Crashed (Error (''Invalid model provider: '' @ modelProvider (load_config e))), []))
   \<and> (modelProvider (load_config e) = GOOGLE_AI_STUDIO \<and> absent (e ''GOOGLE_AI_STUDIO_API_SECRET'')
      \<longrightarrow> googleAIStudioApiSecret (load_config e) = ''gemini-api-key-secret''
        \<and> (absent (project (load_config e)) \<longrightarrow> main e c = (Exited 1, []))
        \<and> (\<forall>pr. project (load_config e) = Some pr \<and> pr \<noteq> [] \<and>
                  isl (accessSecretVersion c
                         (''projects/'' @ pr @ ''/secrets/gemini-api-key-secret/versions/latest''))
              \<longrightarrow> main e c =
                    (Exited 1,
                     [AccessSecretVersion
                        (''projects/'' @ pr @ ''/secrets/gemini-api-key-secret/versions/latest'')])))"
proof (intro conjI impI allI)
  assume "modelProvider (load_config e) = GOOGLE_VERTEXAI \<and> absent (project (load_config e))"
  then show "main e c = (Exited 1, [])"
    by (simp add: main_def Let_def createProvider_def startServer_def vertex_init_def)
next
  assume "modelProvider (load_config e) \<noteq> GOOGLE_VERTEXAI \<and> modelProvider (load_config e) \<noteq> GOOGLE_AI_STUDIO"
  then show "main e c = (Crashed (Error (''Invalid model provider: '' @ modelProvider (load_config e))), [])"
    by (simp add: main_def Let_def createProvider_def)
next
  assume a: "modelProvider (load_config e) = GOOGLE_AI_STUDIO \<and> absent (e ''GOOGLE_AI_STUDIO_API_SECRET'')"
  then show s: "googleAIStudioApiSecret (load_config e) = ''gemini-api-key-secret''"
    by (cases "e ''GOOGLE_AI_STUDIO_API_SECRET''") (simp_all add: load_config_def env_or_def)
  {
    assume "absent (project (load_config e))"
    with a s show "main e c = (Exited 1, [])"
      using kinds_differ default_secret_is_bare
      by (simp add: main_def Let_def createProvider_def startServer_def studio_init_def)
  }
  {
    fix pr
    assume b: "project (load_config e) = Some pr \<and> pr \<noteq> [] \<and>
                  isl (accessSecretVersion c
                         (''projects/'' @ pr @ ''/secrets/gemini-api-key-secret/versions/latest''))"
    then obtain err where
      "accessSecretVersion c (''projects/'' @ pr @ ''/secrets/gemini-api-key-secret/versions/latest'')
         = Inl err"
      by (auto simp: isl_def)
    with a s b show "main e c =
                    (Exited 1,
                     [AccessSecretVersion
                        (''projects/'' @ pr @ ''/secrets/gemini-api-key-secret/versions/latest'')])"
      using kinds_differ default_secret_is_bare
      by (simp add: main_def Let_def createProvider_def startServer_def studio_init_def
          secretVersion_def)
  }
qed

theorem startup_failures_witness:
  "main (map_of [(''MODEL_PROVIDER'', ''google-vertexai'')]) stub = (Exited 1, [])
   \<and> main (map_of [(''MODEL_PROVIDER'', ''openai''), (''GOOGLE_CLOUD_PROJECT'', ''proj-1'')]) stub
       = (Crashed (Error ''Invalid model provider: openai''), [])
   \<and> main (map_of [(''MODEL_PROVIDER'', ''google-ai-studio'')]) stub = (Exited 1, [])
   \<and> main (map_of [(''GOOGLE_CLOUD_PROJECT'', ''proj-1'')]) stub_no_secret
       = (Exited 1,
          [AccessSecretVersion ''projects/proj-1/secrets/gemini-api-key-secret/versions/latest''])"
  using startup_failures [of "map_of [(''MODEL_PROVIDER'', ''google-vertexai'')]" stub]
        startup_failures [of "map_of [(''MODEL_PROVIDER'', ''openai''), (''GOOGLE_CLOUD_PROJECT'', ''proj-1'')]" stub]
        startup_failures [of "map_of [(''MODEL_PROVIDER'', ''google-ai-studio'')]" stub]
        startup_failures [of "map_of [(''GOOGLE_CLOUD_PROJECT'', ''proj-1'')]" stub_no_secret]
  by (simp add: load_config_def env_or_def env_or_env_def GOOGLE_VERTEXAI_def GOOGLE_AI_STUDIO_def
      stub_no_secret_def stub_def)

text \<open>
  With the kind \<^verbatim>\<open>google-ai-studio\<close>, a project and no secret reference in the environment,
  a secret store that holds the default secret and a port that can be bound, the server
  starts and binds its port.
\<close>

theorem startup_default_secret_counterexample:
  "modelProvider (load_config (map_of [(''MODEL_PROVIDER'', ''google-ai-studio''), (''GOOGLE_CLOUD_PROJECT'', ''proj-1'')])) = GOOGLE_AI_STUDIO
   \<and> map_of [(''MODEL_PROVIDER'', ''google-ai-studio''), (''GOOGLE_CLOUD_PROJECT'', ''proj-1'')] ''GOOGLE_AI_STUDIO_API_SECRET'' = None
   \<and> \<not> startup_failed (main (map_of [(''MODEL_PROVIDER'', ''google-ai-studio''), (''GOOGLE_CLOUD_PROJECT'', ''proj-1'')]) stub)
   \<and> binds_port (main (map_of [(''MODEL_PROVIDER'', ''google-ai-studio''), (''GOOGLE_CLOUD_PROJECT'', ''proj-1'')]) stub)"
  by (simp add: main_def Let_def createProvider_def startServer_def studio_init_def
      secretVersion_def load_config_def env_or_def env_or_env_def GOOGLE_VERTEXAI_def
      GOOGLE_AI_STUDIO_def stub_def startsWith_def)


section \<open>Request validation\<close>

lemma trim_blank: "list_all is_ws s \<Longrightarrow> trim s = []"
proof -
  assume "list_all is_ws s"
  then have d: "dropWhile is_ws s = []"
    by (simp add: list_all_iff)
  show "trim s = []"
    unfolding trim_def d by simp
qed

lemma trim_empty_iff: "trim s = [] \<longleftrightarrow> list_all is_ws s"
proof
  assume "trim s = []"
  then have all: "\<forall>x \<in> set (dropWhile is_ws s). is_ws x"
    by (simp add: trim_def)
  have "dropWhile is_ws s = []"
  proof (rule ccontr)
    assume ne: "dropWhile is_ws s \<noteq> []"
    then have "\<not> is_ws (hd (dropWhile is_ws s))"
      by (rule hd_dropWhile)
    moreover from ne have "hd (dropWhile is_ws s) \<in> set (dropWhile is_ws s)"
      by (rule hd_in_set)
    ultimately show False
      using all by blast
  qed
  then show "list_all is_ws s"
    by (simp add: list_all_iff)
next
  assume "list_all is_ws s"
  then show "trim s = []"
    by (rule trim_blank)
qed





section \<open>Provider selection\<close>

text \<open>
  C4, as amended. With \<^verbatim>\<open>MODEL_PROVIDER\<close> unset, or set to the empty string,
  \<^verbatim>\<open>createProvider\<close> constructs the API-key provider. With \<^verbatim>\<open>MODEL_PROVIDER\<close> set to a
  non-empty string that is neither recognised kind it throws
  \<^verbatim>\<open>Invalid model provider: \<close> followed by that string.
\<close>

theorem createProvider_selection:
  "(absent (e ''MODEL_PROVIDER'') \<longrightarrow>
      createProvider (load_config e) =
        Inr (GoogleAIStudio \<lparr> st_modelName = modelName (load_config e),
                               st_project = project (load_config e),
                               st_secretName = Some (googleAIStudioApiSecret (load_config e)),
                               st_model = None \<rparr>))
   \<and> (e ''MODEL_PROVIDER'' = Some k \<and> k \<noteq> [] \<and> k \<noteq> GOOGLE_VERTEXAI \<and> k \<noteq> GOOGLE_AI_STUDIO \<longrightarrow>
      createProvider (load_config e) = Inl (Error (''Invalid model provider: '' @ k)))"
proof (intro conjI impI)
  assume "absent (e ''MODEL_PROVIDER'')"
  then have "modelProvider (load_config e) = GOOGLE_AI_STUDIO"
    by (cases "e ''MODEL_PROVIDER''") (simp_all add: load_config_def env_or_def)
  then show "createProvider (load_config e) =
        Inr (GoogleAIStudio \<lparr> st_modelName = modelName (load_config e),
                               st_project = project (load_config e),
                               st_secretName = Some (googleAIStudioApiSecret (load_config e)),
                               st_model = None \<rparr>)"
    by (simp add: createProvider_def GOOGLE_VERTEXAI_def GOOGLE_AI_STUDIO_def)
next
  assume a: "e ''MODEL_PROVIDER'' = Some k \<and> k \<noteq> [] \<and> k \<noteq> GOOGLE_VERTEXAI \<and> k \<noteq> GOOGLE_AI_STUDIO"
  then have "modelProvider (load_config e) = k"
    by (simp add: load_config_def env_or_def)
  with a show "createProvider (load_config e) = Inl (Error (''Invalid model provider: '' @ k))"
    by (simp add: createProvider_def)
qed

theorem createProvider_selection_witness:
  "createProvider (load_config (map_of [(''GOOGLE_CLOUD_PROJECT'', ''proj-1'')])) =
     Inr (GoogleAIStudio (studio_provider (Some ''proj-1'') ''gemini-api-key-secret''))
   \<and> createProvider (load_config (map_of [(''MODEL_PROVIDER'', ''openai'')])) =
     Inl (Error ''Invalid model provider: openai'')"
  using createProvider_selection [of "map_of [(''GOOGLE_CLOUD_PROJECT'', ''proj-1'')]" "''x''"]
        createProvider_selection [of "map_of [(''MODEL_PROVIDER'', ''openai'')]" "''openai''"]
  by (simp add: load_config_def env_or_def env_or_env_def studio_provider_def
      GOOGLE_VERTEXAI_def GOOGLE_AI_STUDIO_def)

text \<open>
  The empty string is a value other than the two recognised kinds, and selecting with it
  falls back to the API-key provider.
\<close>

theorem createProvider_empty_selector_counterexample:
  "map_of [(''MODEL_PROVIDER'', ''''), (''GOOGLE_CLOUD_PROJECT'', ''proj-1'')] ''MODEL_PROVIDER'' = Some ''''
   \<and> '''' \<noteq> GOOGLE_VERTEXAI \<and> '''' \<noteq> GOOGLE_AI_STUDIO
   \<and> createProvider (load_config (map_of [(''MODEL_PROVIDER'', ''''), (''GOOGLE_CLOUD_PROJECT'', ''proj-1'')])) =
       Inr (GoogleAIStudio (studio_provider (Some ''proj-1'') ''gemini-api-key-secret''))"
  by (simp add: createProvider_def load_config_def env_or_def env_or_env_def studio_provider_def
      GOOGLE_VERTEXAI_def GOOGLE_AI_STUDIO_def)


section \<open>Generation on the Vertex provider\<close>

lemma candidate_text_no_candidates:
  assumes "get_prop result ''response'' = Inr response"
      and "get_prop response ''candidates'' = Inr (JArr [])"
  shows "candidate_text result = Inl (cannot_read ''undefined'' ''content'')"
  using assms by (simp add: candidate_text_def)

lemma candidate_text_first:
  assumes "get_prop result ''response'' = Inr response"
      and "get_prop response ''candidates'' = Inr (JArr (cand # rest))"
      and "get_prop cand ''content'' = Inr content"
      and "get_prop content ''parts'' = Inr (JArr (part # ps))"
  shows "candidate_text result = get_prop part ''text''"
  using assms by (simp add: candidate_text_def)

text \<open>
  C5, as amended. On an initialised Vertex provider whose backend answers with a result that
  has a candidate list, \<^verbatim>\<open>generateContent\<close> returns exactly what
  \<^verbatim>\<open>response.candidates[0].content.parts[0].text\<close> yields: with an empty candidate list it
  fails with a \<^verbatim>\<open>TypeError\<close>, and with a first candidate whose first part has the \<^verbatim>\<open>text\<close>
  value \<open>v\<close> it returns \<open>v\<close>, a string when the part carries text and \<^verbatim>\<open>undefined\<close> when it
  carries none.
\<close>

theorem vertex_generateContent_first_candidate:
  assumes "vx_model p = Some m"
      and "vertexGenerate c m (user_request userMessage) = Inr result"
      and "get_prop result ''response'' = Inr response"
      and "get_prop response ''candidates'' = Inr (JArr cands)"
  shows "fst (vertex_generateContent c p userMessage) = candidate_text result
       \<and> (cands = [] \<longrightarrow>
            fst (vertex_generateContent c p userMessage) = Inl (cannot_read ''undefined'' ''content''))
       \<and> (cands = cand # rest \<and> get_prop cand ''content'' = Inr content
            \<and> get_prop content ''parts'' = Inr (JArr (part # ps)) \<and> get_prop part ''text'' = Inr v
            \<longrightarrow> fst (vertex_generateContent c p userMessage) = Inr v)"
proof -
  have eq: "fst (vertex_generateContent c p userMessage) = candidate_text result"
    using assms(1,2) by (simp add: vertex_generateContent_def)
  have none: "cands = [] \<longrightarrow> candidate_text result = Inl (cannot_read ''undefined'' ''content'')"
    using assms(3,4) by (auto intro: candidate_text_no_candidates)
  have some: "cands = cand # rest \<and> get_prop cand ''content'' = Inr content
            \<and> get_prop content ''parts'' = Inr (JArr (part # ps)) \<and> get_prop part ''text'' = Inr v
            \<longrightarrow> candidate_text result = Inr v"
    using assms(3,4) by (auto simp: candidate_text_first)
  from eq none some show ?thesis
    by simp
qed

theorem vertex_generateContent_first_candidate_witness:
  "fst (vertex_generateContent stub vertex_ready (JStr ''hi'')) = Inr (JStr ''Hello'')
   \<and> fst (vertex_generateContent stub_no_candidates vertex_ready (JStr ''hi'')) =
       Inl (TypeError ''Cannot read properties of undefined (reading 'content')'')"
proof -
  let ?m = "\<lparr> vm_project = ''proj-1'', vm_location = ''us-central1'', vm_model = ''gemini-2.0-flash-lite'' \<rparr>"
  let ?part = "JObj [(''text'', JStr ''Hello'')]"
  let ?content = "JObj [(''role'', JStr ''model''), (''parts'', JArr [?part])]"
  have a: "fst (vertex_generateContent stub vertex_ready (JStr ''hi'')) = Inr (JStr ''Hello'')"
    using vertex_generateContent_first_candidate
      [where p = vertex_ready and m = ?m and c = stub and userMessage = "JStr ''hi''"
         and result = "vertex_result [candidate [?part]]"
         and response = "JObj [(''candidates'', JArr [candidate [?part]])]"
         and cands = "[candidate [?part]]" and cand = "candidate [?part]" and rest = "[]"
         and content = ?content and part = ?part and ps = "[]" and v = "JStr ''Hello''",
       THEN conjunct2, THEN conjunct2]
    by (simp add: vertex_ready_def stub_def vertex_result_def candidate_def)
  have b: "fst (vertex_generateContent stub_no_candidates vertex_ready (JStr ''hi'')) =
       Inl (TypeError ''Cannot read properties of undefined (reading 'content')'')"
    using vertex_generateContent_first_candidate
      [where p = vertex_ready and m = ?m and c = stub_no_candidates and userMessage = "JStr ''hi''"
         and result = "vertex_result []" and response = "JObj [(''candidates'', JArr [])]"
         and cands = "[]", THEN conjunct2, THEN conjunct1]
    by (simp add: vertex_ready_def stub_no_candidates_def stub_def vertex_result_def cannot_read_def)
  from a b show ?thesis by simp
qed

text \<open>
  A backend answer whose first part is a function call: the call succeeds, and what it
  returns is \<^verbatim>\<open>undefined\<close>.
\<close>

theorem vertex_generateContent_undefined_counterexample:
  "fst (vertex_generateContent stub_no_text vertex_ready (JStr ''hi'')) = Inr JUndefined"
  by (simp add: vertex_generateContent_def vertex_ready_def stub_no_text_def stub_def
      vertex_result_def candidate_def candidate_text_def)


section \<open>Handlers keep the server as it is and always answer\<close>

lemma generateContent_this: "fst (snd (generateContent c p m)) = p"
  by (cases p) (simp_all add: vertex_generateContent_def studio_generateContent_def split: option.splits)

lemma generateContent_thisD: "generateContent c p m = (r, p', tr) \<Longrightarrow> p' = p"
  using generateContent_this [of c p m] by simp

lemma post_handler_server: "fst (snd (post_handler c srv b)) = srv"
  by (auto simp: post_handler_def post_try_def split: sum.splits prod.splits
      dest!: generateContent_thisD)

lemma post_handler_total: "\<not> isl (fst (post_handler c srv b))"
  by (auto simp: post_handler_def post_try_def split: sum.splits prod.splits)

lemma handle_server: "fst (snd (handle c srv r)) = srv"
  by (cases r) (simp_all add: get_handler_def post_handler_server)

lemma handle_total: "\<not> isl (fst (handle c srv r))"
  by (cases r) (simp_all add: get_handler_def post_handler_total)

lemma serve_all_answered:
  "length (serve c srv rs) = length rs \<and> list_all (\<lambda>out. \<not> isl out) (serve c srv rs)"
proof (induction rs arbitrary: srv)
  case Nil
  show ?case by simp
next
  case (Cons r rs)
  obtain out srv' tr where h: "handle c srv r = (out, srv', tr)"
    by (cases "handle c srv r") auto
  from h handle_total [of c srv r] have "\<not> isl out" by simp
  with h Cons.IH [of srv'] show ?case by simp
qed

lemma serve_stateless: "serve c srv rs = map (\<lambda>r. fst (handle c srv r)) rs"
proof (induction rs)
  case Nil
  show ?case by simp
next
  case (Cons r rs)
  obtain out srv' tr where h: "handle c srv r = (out, srv', tr)"
    by (cases "handle c srv r") auto
  with handle_server [of c srv r] have "srv' = srv" by simp
  with h Cons.IH show ?case by simp
qed

lemma generateContent_reads_model:
  "vx_model p = vx_model q \<Longrightarrow>
     fst (vertex_generateContent c p m) = fst (vertex_generateContent c q m)"
  "st_model p' = st_model q' \<Longrightarrow>
     fst (studio_generateContent c p' m) = fst (studio_generateContent c q' m)"
  by (simp_all add: vertex_generateContent_def studio_generateContent_def split: option.splits)


section \<open>Generation failures\<close>

text \<open>
  C6. For a POST whose \<^verbatim>\<open>message\<close> is a string with a character that is not white space, if
  the provider's \<^verbatim>\<open>generateContent\<close> throws \<open>e\<close>, the handler answers with status 500 and the
  body \<^verbatim>\<open>{"error": "Error generating content", "details": e.message}\<close>. No exception leaves
  the handler and the server is left as it was: every request that follows is answered, by
  the same server.
\<close>

theorem post_generation_failure:
  assumes "map_of kvs ''message'' = Some (JStr s)"
      and "\<not> list_all is_ws s"
      and "fst (generateContent c (provider srv) (JStr s)) = Inl e"
  shows "fst (post_handler c srv (JObj kvs)) =
           Inr \<lparr> status = 500,
                  body = JObj [(''error'', JStr ''Error generating content''),
                               (''details'', JStr (message e))] \<rparr>
       \<and> fst (snd (post_handler c srv (JObj kvs))) = srv
       \<and> serve c srv (POST (JObj kvs) # rs) =
           Inr \<lparr> status = 500,
                  body = JObj [(''error'', JStr ''Error generating content''),
                               (''details'', JStr (message e))] \<rparr> # serve c srv rs
       \<and> length (serve c srv rs) = length rs
       \<and> list_all (\<lambda>out. \<not> isl out) (serve c srv rs)"
proof -
  from assms(2) have ne: "trim s \<noteq> []"
    by (simp add: trim_empty_iff)
  from assms(2) have s: "s \<noteq> []"
    by auto
  have out: "fst (post_handler c srv (JObj kvs)) =
           Inr \<lparr> status = 500,
                  body = JObj [(''error'', JStr ''Error generating content''),
                               (''details'', JStr (message e))] \<rparr>"
    using assms(1,3) ne s
    by (auto simp: post_handler_def post_try_def generation_failed_def split: prod.splits sum.splits)
  have srv: "fst (snd (post_handler c srv (JObj kvs))) = srv"
    by (rule post_handler_server)
  from out srv have "serve c srv (POST (JObj kvs) # rs) =
           Inr \<lparr> status = 500,
                  body = JObj [(''error'', JStr ''Error generating content''),
                               (''details'', JStr (message e))] \<rparr> # serve c srv rs"
    by (cases "post_handler c srv (JObj kvs)") auto
  with out srv serve_all_answered [of c srv rs] show ?thesis
    by simp
qed

theorem post_generation_failure_witness:
  "serve stub_failing vertex_server [POST (JObj [(''message'', JStr ''hi'')]), GET (JObj [])] =
     [Inr \<lparr> status = 500,
             body = JObj [(''error'', JStr ''Error generating content''),
                          (''details'', JStr ''quota exceeded'')] \<rparr>,
      Inr \<lparr> status = 200,
             body = JObj [(''message'', JStr ''Health check successful''),
                          (''request'', JObj [])] \<rparr>]"
  using post_generation_failure
    [where kvs = "[(''message'', JStr ''hi'')]" and s = "''hi''" and c = stub_failing
       and srv = vertex_server and e = "Error ''quota exceeded''" and rs = "[GET (JObj [])]",
     THEN conjunct2, THEN conjunct2, THEN conjunct1]
  by (simp add: is_ws_def vertex_server_def vertex_ready_def vertex_generateContent_def
      stub_failing_def stub_def get_handler_def)


section \<open>Health check\<close>

text \<open>
  C7. A GET is answered with status 200 and the body
  \<^verbatim>\<open>{"message": "Health check successful", "request": req.body}\<close>, for every request body,
  every server (whatever its provider holds) and every collaborator; the run makes no call,
  so the provider is not invoked.
\<close>

theorem get_health_check:
  "handle c srv (GET b) =
     (Inr \<lparr> status = 200,
            body = JObj [(''message'', JStr ''Health check successful''), (''request'', b)] \<rparr>,
      srv, [])"
  by (simp add: get_handler_def)


section \<open>Generation keeps no state\<close>

text \<open>
  C8. Two consecutive \<^verbatim>\<open>generateContent\<close> calls with the same message, the second on the
  provider as the first call left it, return the same result and make the same backend
  calls; each call leaves the provider object as it found it. The backends are functions of
  their arguments, which is what a deterministic backend means here.
\<close>

theorem generateContent_idempotent:
  assumes "generateContent c p m = (r1, p1, t1)"
      and "generateContent c p1 m = (r2, p2, t2)"
  shows "r2 = r1 \<and> t2 = t1 \<and> p1 = p \<and> p2 = p"
proof -
  from assms(1) generateContent_this [of c p m] have p1: "p1 = p" by simp
  with assms show ?thesis by simp
qed

theorem generateContent_idempotent_witness:
  "fst (generateContent stub (fst (snd (generateContent stub (VertexAI vertex_ready) (JStr ''hi'')))) (JStr ''hi''))
     = fst (generateContent stub (VertexAI vertex_ready) (JStr ''hi''))
   \<and> fst (snd (generateContent stub (VertexAI vertex_ready) (JStr ''hi''))) = VertexAI vertex_ready
   \<and> fst (generateContent stub (VertexAI vertex_ready) (JStr ''hi'')) = Inr (JStr ''Hello'')"
proof -
  let ?g = "generateContent stub (VertexAI vertex_ready) (JStr ''hi'')"
  let ?h = "generateContent stub (fst (snd ?g)) (JStr ''hi'')"
  have "fst ?h = fst ?g \<and> snd (snd ?h) = snd (snd ?g) \<and> fst (snd ?g) = VertexAI vertex_ready
        \<and> fst (snd ?h) = VertexAI vertex_ready"
    by (rule generateContent_idempotent [of stub "VertexAI vertex_ready" "JStr ''hi''"
          "fst ?g" "fst (snd ?g)" "snd (snd ?g)" "fst ?h" "fst (snd ?h)" "snd (snd ?h)"]) simp_all
  moreover have "fst ?g = Inr (JStr ''Hello'')"
    by (simp add: vertex_generateContent_def vertex_ready_def stub_def vertex_result_def
        candidate_def candidate_text_def)
  ultimately show ?thesis by simp
qed


section \<open>The debug object of a successful response\<close>

lemma main_listening_cfg: "main e c = (Listening srv, tr) \<Longrightarrow> cfg srv = load_config e"
  by (auto simp: main_def Let_def startServer_def split: sum.splits prod.splits option.splits)

text \<open>
  C9. On a server that started with the environment \<open>e\<close>, every POST answered with status 200
  has a body of exactly three properties: \<^verbatim>\<open>reply\<close>, \<^verbatim>\<open>request\<close> (the request body) and
  \<^verbatim>\<open>debug\<close>, an object holding the resolved model name, project, region and provider kind
  under the keys \<^verbatim>\<open>MODEL_NAME\<close>, \<^verbatim>\<open>project\<close>, \<^verbatim>\<open>location\<close> and \<^verbatim>\<open>modelProvider\<close>. An
  unconfigured project is the value \<^verbatim>\<open>undefined\<close> there.
\<close>

theorem post_success_debug:
  assumes "main e c = (Listening srv, tr0)"
      and "post_handler c srv b = (Inr r, srv', tr)"
      and "status r = 200"
  shows "get_prop (body r) ''request'' = Inr b
       \<and> get_prop (body r) ''debug'' =
           Inr (JObj [(''MODEL_NAME'', JStr (modelName (load_config e))),
                      (''project'', opt_str (project (load_config e))),
                      (''location'', JStr (location (load_config e))),
                      (''modelProvider'', JStr (modelProvider (load_config e)))])
       \<and> (\<exists>reply. body r = JObj [(''reply'', reply), (''request'', b), (''debug'', debug (cfg srv))])"
proof -
  from assms(1) have cf: "cfg srv = load_config e"
    by (rule main_listening_cfg)
  from assms(2,3) have "\<exists>reply. body r = JObj [(''reply'', reply), (''request'', b), (''debug'', debug (cfg srv))]"
    by (auto simp: post_handler_def post_try_def message_required_def generation_failed_def
        split: sum.splits prod.splits if_splits)
  then obtain reply where
    b: "body r = JObj [(''reply'', reply), (''request'', b), (''debug'', debug (cfg srv))]"
    by blast
  from b cf show ?thesis
    by (simp add: debug_def)
qed

theorem post_success_debug_witness:
  "main vertex_env stub = (Listening vertex_server, [Listen ''8080''])
   \<and> fst (post_handler stub vertex_server (JObj [(''message'', JStr ''hi'')])) =
     Inr \<lparr> status = 200,
            body = JObj [(''reply'', JStr ''Hello''),
                         (''request'', JObj [(''message'', JStr ''hi'')]),
                         (''debug'', JObj [(''MODEL_NAME'', JStr ''gemini-2.0-flash-lite''),
                                           (''project'', JStr ''proj-1''),
                                           (''location'', JStr ''us-central1''),
                                           (''modelProvider'', JStr ''google-vertexai'')])] \<rparr>"
proof -
  let ?b = "JObj [(''message'', JStr ''hi'')]"
  let ?h = "post_handler stub vertex_server ?b"
  have cf: "load_config vertex_env =
      \<lparr> port = ''8080'', modelName = ''gemini-2.0-flash-lite'', project = Some ''proj-1'',
        location = ''us-central1'', modelProvider = ''google-vertexai'',
        googleAIStudioApiSecret = ''gemini-api-key-secret'' \<rparr>"
    by (simp add: load_config_def vertex_env_def env_or_def env_or_env_def GOOGLE_AI_STUDIO_def)
  have m: "main vertex_env stub = (Listening vertex_server, [Listen ''8080''])"
    by (simp add: main_def Let_def cf createProvider_def GOOGLE_VERTEXAI_def startServer_def
        vertex_init_def vertex_server_def vertex_ready_def stub_def)
  have g: "generateContent stub (VertexAI vertex_ready) (JStr ''hi'') =
      (Inr (JStr ''Hello''), VertexAI vertex_ready,
       [GenerateContent (JStr ''hi''),
        VertexGenerate \<lparr> vm_project = ''proj-1'', vm_location = ''us-central1'',
                         vm_model = ''gemini-2.0-flash-lite'' \<rparr> (user_request (JStr ''hi''))])"
    by (simp add: vertex_generateContent_def vertex_ready_def stub_def vertex_result_def
        candidate_def candidate_text_def)
  have t: "trim ''hi'' = ''hi''"
    by (simp add: trim_def is_ws_def)
  let ?r = "\<lparr> status = 200,
              body = JObj [(''reply'', JStr ''Hello''), (''request'', ?b),
                           (''debug'', debug (cfg vertex_server))] \<rparr>"
  let ?tr = "[GenerateContent (JStr ''hi''),
        VertexGenerate \<lparr> vm_project = ''proj-1'', vm_location = ''us-central1'',
                         vm_model = ''gemini-2.0-flash-lite'' \<rparr> (user_request (JStr ''hi''))]"
  have h: "?h = (Inr ?r, vertex_server, ?tr)"
    by (simp add: post_handler_def post_try_def g t vertex_server_def del: generateContent.simps)
  have "get_prop (body ?r) ''debug'' =
      Inr (JObj [(''MODEL_NAME'', JStr (modelName (load_config vertex_env))),
                 (''project'', opt_str (project (load_config vertex_env))),
                 (''location'', JStr (location (load_config vertex_env))),
                 (''modelProvider'', JStr (modelProvider (load_config vertex_env)))])"
    using post_success_debug [OF m h] by simp
  then have "debug (cfg vertex_server) =
      JObj [(''MODEL_NAME'', JStr ''gemini-2.0-flash-lite''),
            (''project'', JStr ''proj-1''),
            (''location'', JStr ''us-central1''),
            (''modelProvider'', JStr ''google-vertexai'')]"
    by (simp add: cf)
  with m h show ?thesis
    by simp
qed


section \<open>A message that is not a string\<close>

text \<open>
  C10, as amended. For a POST whose \<^verbatim>\<open>message\<close> is present and not a string: when the value
  is truthy (a number other than zero, \<^verbatim>\<open>true\<close>, an array or an object) the validation does
  not answer 400; calling \<^verbatim>\<open>trim\<close> on it throws, and the answer is status 500 with the error
  \<^verbatim>\<open>Error generating content\<close>. When the value is falsy (zero, \<^verbatim>\<open>false\<close>, \<^verbatim>\<open>null\<close>) the
  answer is status 400 with \<^verbatim>\<open>Message is required\<close>. The provider is invoked in neither case.
\<close>

theorem post_non_string_message:
  assumes "map_of kvs ''message'' = Some v"
      and "\<not> is_string v"
  shows "(truthy v \<longrightarrow>
            post_handler c srv (JObj kvs) =
              (Inr \<lparr> status = 500,
                      body = JObj [(''error'', JStr ''Error generating content''),
                                   (''details'', JStr ''userMessage.trim is not a function'')] \<rparr>,
               srv, []))
       \<and> (\<not> truthy v \<longrightarrow>
            post_handler c srv (JObj kvs) =
              (Inr \<lparr> status = 400, body = JObj [(''error'', JStr ''Message is required'')] \<rparr>,
               srv, []))"
  using assms
  by (cases v) (simp_all add: post_handler_def post_try_def generation_failed_def message_required_def)

theorem post_non_string_message_witness:
  "post_handler stub vertex_server (JObj [(''message'', JNum 5)]) =
     (Inr \<lparr> status = 500,
             body = JObj [(''error'', JStr ''Error generating content''),
                          (''details'', JStr ''userMessage.trim is not a function'')] \<rparr>,
      vertex_server, [])
   \<and> post_handler stub vertex_server (JObj [(''message'', JBool False)]) =
     (Inr \<lparr> status = 400, body = JObj [(''error'', JStr ''Message is required'')] \<rparr>,
      vertex_server, [])"
  using post_non_string_message [of "[(''message'', JNum 5)]" "JNum 5" stub vertex_server]
        post_non_string_message [of "[(''message'', JBool False)]" "JBool False" stub vertex_server]
  by simp

text \<open>The number zero is a message that is present and no string; it is answered with 400.\<close>

theorem post_zero_message_counterexample:
  "map_of [(''message'', JNum 0)] ''message'' = Some (JNum 0) \<and> \<not> is_string (JNum 0)
   \<and> post_handler stub vertex_server (JObj [(''message'', JNum 0)]) =
     (Inr \<lparr> status = 400, body = JObj [(''error'', JStr ''Message is required'')] \<rparr>,
      vertex_server, [])"
  by (simp add: post_handler_def post_try_def message_required_def)

end
